theory Spec2Isabelle
  imports Main
begin

section \<open>JavaScript strings\<close>

text \<open>
  A JavaScript string is a sequence of UTF-16 code units. The model uses \<open>string\<close>; one
  \<open>char\<close> stands for one code unit below 256, so \<open>length\<close> is \<open>.length\<close>, \<open>take n\<close> is
  \<open>.substring(0, n)\<close> and the white space of \<open>trim\<close> and \<open>\s\<close> is the part of the
  ECMAScript set that lies in this range. Numbers are \<open>int\<close>: line numbers and offsets are
  integers far below \<open>2 ^ 53\<close>, where the arithmetic of doubles is exact.
\<close>

definition newline :: char where "newline = CHR 0x0A"
definition dquote :: char where "dquote = CHR 0x22"
definition squote :: char where "squote = CHR 0x27"
definition bslash :: char where "bslash = CHR 0x5C"

definition code :: "char \<Rightarrow> nat" where
  "code c = of_char c"

definition is_digit :: "char \<Rightarrow> bool" where
  "is_digit c = (48 \<le> code c \<and> code c \<le> 57)"

definition is_alpha :: "char \<Rightarrow> bool" where
  "is_alpha c = ((65 \<le> code c \<and> code c \<le> 90) \<or> (97 \<le> code c \<and> code c \<le> 122))"

definition is_word :: "char \<Rightarrow> bool" where
  "is_word c = (is_alpha c \<or> is_digit c \<or> c = CHR ''_'')"

text \<open>White space and line terminators of ECMAScript below 256: TAB, LF, VT, FF, CR, SP, NBSP.\<close>

definition is_space :: "char \<Rightarrow> bool" where
  "is_space c = (code c \<in> {9, 10, 11, 12, 13, 32, 160})"

definition is_line_terminator :: "char \<Rightarrow> bool" where
  "is_line_terminator c = (code c \<in> {10, 13})"

text \<open>\<open>String.prototype.trim\<close>.\<close>

definition trim :: "string \<Rightarrow> string" where
  "trim s = rev (dropWhile is_space (rev (dropWhile is_space s)))"

text \<open>\<open>s.split('\n')\<close>: never empty; the empty string gives one empty line.\<close>

fun split_lines :: "string \<Rightarrow> string list" where
  "split_lines [] = [[]]"
| "split_lines (c # cs) =
     (if c = newline then [] # split_lines cs
      else (case split_lines cs of
              [] \<Rightarrow> [[c]]
            | l # ls \<Rightarrow> (c # l) # ls))"

text \<open>\<open>s.startsWith(p)\<close> and \<open>s.includes(p)\<close>.\<close>

fun startsWith :: "string \<Rightarrow> string \<Rightarrow> bool" where
  "startsWith s [] = True"
| "startsWith [] (p # ps) = False"
| "startsWith (c # cs) (p # ps) = (c = p \<and> startsWith cs ps)"

fun str_includes :: "string \<Rightarrow> string \<Rightarrow> bool" where
  "str_includes [] p = (p = [])"
| "str_includes (c # cs) p = (startsWith (c # cs) p \<or> str_includes cs p)"

text \<open>\<open>(s.match(/\n/g) || []).length\<close>: the number of line feeds in \<open>s\<close>.\<close>

definition count_newlines :: "string \<Rightarrow> nat" where
  "count_newlines s = length (filter (\<lambda>c. c = newline) s)"

text \<open>\<open>s.substring(0, n)\<close> for a number \<open>n\<close>: a negative end is taken as 0.\<close>

definition substring0 :: "string \<Rightarrow> int \<Rightarrow> string" where
  "substring0 s n = take (nat n) s"

text \<open>\<open>Number.parseInt(s, 10)\<close> on a string of decimal digits.\<close>

definition digit_val :: "char \<Rightarrow> int" where
  "digit_val c = int (code c) - 48"

definition parseInt :: "string \<Rightarrow> int" where
  "parseInt s = foldl (\<lambda>n c. 10 * n + digit_val c) 0 s"

text \<open>\<open>s.replace(/p/g, r)\<close> for a literal, non-empty \<open>p\<close>: every occurrence, left to right.\<close>

fun replaceAll :: "string \<Rightarrow> string \<Rightarrow> string \<Rightarrow> string" where
  "replaceAll p r [] = []"
| "replaceAll p r (c # cs) =
     (if p \<noteq> [] \<and> startsWith (c # cs) p
      then r @ replaceAll p r (drop (length p - 1) cs)
      else c # replaceAll p r cs)"

section \<open>Regular expressions\<close>

text \<open>
  The regular expressions of the source are sequences of literals, quantified character
  classes, assertions and group parentheses. \<open>rx_match\<close> is the backtracking matcher of
  ECMAScript restricted to that shape: a greedy quantifier tries the longer match first,
  a lazy one the shorter, and the first alternative that lets the rest of the pattern
  match is taken.
\<close>

datatype cclass =
    Digit            \<comment> \<open>\<open>\d\<close>\<close>
  | Space            \<comment> \<open>\<open>\s\<close>\<close>
  | Dot              \<comment> \<open>\<open>.\<close>\<close>
  | AnyChar          \<comment> \<open>\<open>[\s\S]\<close>\<close>
  | Alpha            \<comment> \<open>\<open>[a-zA-Z]\<close>\<close>
  | IdChar           \<comment> \<open>\<open>[a-zA-Z0-9_-]\<close>\<close>
  | OneOf string     \<comment> \<open>\<open>[...]\<close>\<close>
  | NoneOf string    \<comment> \<open>\<open>[^...]\<close>\<close>

fun cmem :: "cclass \<Rightarrow> char \<Rightarrow> bool" where
  "cmem Digit c = is_digit c"
| "cmem Space c = is_space c"
| "cmem Dot c = (\<not> is_line_terminator c)"
| "cmem AnyChar c = True"
| "cmem Alpha c = is_alpha c"
| "cmem IdChar c = (is_alpha c \<or> is_digit c \<or> c = CHR ''_'' \<or> c = CHR ''-'')"
| "cmem (OneOf s) c = (c \<in> set s)"
| "cmem (NoneOf s) c = (c \<notin> set s)"

datatype quant = Once | Opt | Star | Plus | LazyStar | LazyPlus

datatype item =
    Lit string           \<comment> \<open>literal text\<close>
  | OptLit string        \<comment> \<open>\<open>(?:text)?\<close>\<close>
  | Cls cclass quant     \<comment> \<open>a character class and its quantifier\<close>
  | Bol                  \<comment> \<open>\<open>^\<close>\<close>
  | WordB                \<comment> \<open>\<open>\b\<close>\<close>
  | Open                 \<comment> \<open>\<open>(\<close>\<close>
  | Close                \<comment> \<open>\<open>)\<close>\<close>

text \<open>
  Flag \<open>i\<close>: two code units match when their canonical forms agree. The literals of the
  source are ASCII, and no code unit outside ASCII canonicalises into ASCII, so folding
  the ASCII letters is exact. The classes used under \<open>i\<close> contain no letters.
\<close>

definition canon :: "char \<Rightarrow> char" where
  "canon c = (if 97 \<le> code c \<and> code c \<le> 122 then char_of (code c - 32) else c)"

definition ceq :: "bool \<Rightarrow> char \<Rightarrow> char \<Rightarrow> bool" where
  "ceq ci p c = (if ci then canon p = canon c else p = c)"

fun lit_match :: "bool \<Rightarrow> string \<Rightarrow> string \<Rightarrow> bool" where
  "lit_match ci [] inp = True"
| "lit_match ci (p # ps) [] = False"
| "lit_match ci (p # ps) (c # cs) = (ceq ci p c \<and> lit_match ci ps cs)"

definition at_word_boundary :: "string \<Rightarrow> string \<Rightarrow> bool" where
  "at_word_boundary pre inp =
     ((case pre of [] \<Rightarrow> False | a # _ \<Rightarrow> is_word a) \<noteq>
      (case inp of [] \<Rightarrow> False | b # _ \<Rightarrow> is_word b))"

text \<open>
  \<open>rx_match ci items pre inp g caps\<close>: \<open>pre\<close> is the input before the current position,
  reversed, \<open>inp\<close> the input from it on, \<open>g\<close> the position at which the open group began
  and \<open>caps\<close> the groups closed so far. The result is the end position and the captures.
\<close>

fun rx_match :: "bool \<Rightarrow> item list \<Rightarrow> string \<Rightarrow> string \<Rightarrow> nat \<Rightarrow> string list
    \<Rightarrow> (nat \<times> string list) option" where
  "rx_match ci [] pre inp g caps = Some (length pre, caps)"
| "rx_match ci (Lit s # its) pre inp g caps =
     (if lit_match ci s inp
      then rx_match ci its (rev (take (length s) inp) @ pre) (drop (length s) inp) g caps
      else None)"
| "rx_match ci (OptLit s # its) pre inp g caps =
     (case (if lit_match ci s inp
            then rx_match ci its (rev (take (length s) inp) @ pre) (drop (length s) inp) g caps
            else None) of
        Some r \<Rightarrow> Some r
      | None \<Rightarrow> rx_match ci its pre inp g caps)"
| "rx_match ci (Bol # its) pre inp g caps =
     (if pre = [] then rx_match ci its pre inp g caps else None)"
| "rx_match ci (WordB # its) pre inp g caps =
     (if at_word_boundary pre inp then rx_match ci its pre inp g caps else None)"
| "rx_match ci (Open # its) pre inp g caps = rx_match ci its pre inp (length pre) caps"
| "rx_match ci (Close # its) pre inp g caps =
     rx_match ci its pre inp g (caps @ [rev (take (length pre - g) pre)])"
| "rx_match ci (Cls k Once # its) pre inp g caps =
     (case inp of
        [] \<Rightarrow> None
      | c # cs \<Rightarrow> if cmem k c then rx_match ci its (c # pre) cs g caps else None)"
| "rx_match ci (Cls k Opt # its) pre inp g caps =
     (case (case inp of
              [] \<Rightarrow> None
            | c # cs \<Rightarrow> if cmem k c then rx_match ci its (c # pre) cs g caps else None) of
        Some r \<Rightarrow> Some r
      | None \<Rightarrow> rx_match ci its pre inp g caps)"
| "rx_match ci (Cls k Star # its) pre inp g caps =
     (case (case inp of
              [] \<Rightarrow> None
            | c # cs \<Rightarrow>
                if cmem k c then rx_match ci (Cls k Star # its) (c # pre) cs g caps else None) of
        Some r \<Rightarrow> Some r
      | None \<Rightarrow> rx_match ci its pre inp g caps)"
| "rx_match ci (Cls k Plus # its) pre inp g caps =
     (case inp of
        [] \<Rightarrow> None
      | c # cs \<Rightarrow>
          if cmem k c then rx_match ci (Cls k Star # its) (c # pre) cs g caps else None)"
| "rx_match ci (Cls k LazyStar # its) pre inp g caps =
     (case rx_match ci its pre inp g caps of
        Some r \<Rightarrow> Some r
      | None \<Rightarrow>
          (case inp of
             [] \<Rightarrow> None
           | c # cs \<Rightarrow>
               if cmem k c then rx_match ci (Cls k LazyStar # its) (c # pre) cs g caps
               else None))"
| "rx_match ci (Cls k LazyPlus # its) pre inp g caps =
     (case inp of
        [] \<Rightarrow> None
      | c # cs \<Rightarrow>
          if cmem k c then rx_match ci (Cls k LazyStar # its) (c # pre) cs g caps else None)"

text \<open>
  \<open>RegExp.prototype.exec\<close> without flag \<open>g\<close>: the leftmost position at which the pattern
  matches; the result is the index of the match, its end and its captures.
\<close>

fun rx_search :: "bool \<Rightarrow> item list \<Rightarrow> string \<Rightarrow> string \<Rightarrow> (nat \<times> nat \<times> string list) option" where
  "rx_search ci items pre [] =
     (case rx_match ci items pre [] 0 [] of
        Some (e, caps) \<Rightarrow> Some (length pre, e, caps)
      | None \<Rightarrow> None)"
| "rx_search ci items pre (c # cs) =
     (case rx_match ci items pre (c # cs) 0 [] of
        Some (e, caps) \<Rightarrow> Some (length pre, e, caps)
      | None \<Rightarrow> rx_search ci items (c # pre) cs)"

text \<open>\<open>s.match(re)\<close> for a pattern without flag \<open>g\<close>: the captures of the first match.\<close>

definition rx_exec :: "bool \<Rightarrow> item list \<Rightarrow> string \<Rightarrow> string list option" where
  "rx_exec ci items s = map_option (\<lambda>(i, e, caps). caps) (rx_search ci items [] s)"

text \<open>Capture group \<open>n\<close> of a match (\<open>match[n]\<close>, \<open>n \<ge> 1\<close>); a group that is not there reads as empty.\<close>

definition grp :: "string list \<Rightarrow> nat \<Rightarrow> string" where
  "grp caps n = (if 1 \<le> n \<and> n \<le> length caps then caps ! (n - 1) else [])"

text \<open>\<open>s.replace(re, r)\<close> for a pattern without flag \<open>g\<close>: the first match is replaced.\<close>

definition rx_replace :: "bool \<Rightarrow> item list \<Rightarrow> string \<Rightarrow> string \<Rightarrow> string" where
  "rx_replace ci items r s =
     (case rx_search ci items [] s of
        None \<Rightarrow> s
      | Some (i, e, caps) \<Rightarrow> take i s @ r @ drop e s)"

text \<open>
  \<open>s.matchAll(re)\<close> with \<open>lastIndex = 0\<close>: the successive matches, each search starting
  where the previous match ended (one code unit further after an empty match). \<open>skip\<close>
  counts the positions still inside the previous match.
\<close>

fun rx_all_from :: "bool \<Rightarrow> item list \<Rightarrow> string \<Rightarrow> string \<Rightarrow> nat \<Rightarrow> (nat \<times> string list) list" where
  "rx_all_from ci items pre [] skip =
     (if skip = 0
      then (case rx_match ci items pre [] 0 [] of
              Some (e, caps) \<Rightarrow> [(length pre, caps)]
            | None \<Rightarrow> [])
      else [])"
| "rx_all_from ci items pre (c # cs) skip =
     (if skip = 0
      then (case rx_match ci items pre (c # cs) 0 [] of
              Some (e, caps) \<Rightarrow>
                (length pre, caps) # rx_all_from ci items (c # pre) cs (e - length pre - 1)
            | None \<Rightarrow> rx_all_from ci items (c # pre) cs 0)
      else rx_all_from ci items (c # pre) cs (skip - 1))"

definition matchAll :: "bool \<Rightarrow> item list \<Rightarrow> string \<Rightarrow> (nat \<times> string list) list" where
  "matchAll ci items s = rx_all_from ci items [] s 0"

section \<open>Data model\<close>

text \<open>
  \<open>ParsedError\<close>, \<open>ValidationError\<close>, \<open>CodeBlock\<close> and \<open>Token\<close> of the source. A field that may
  be \<open>null\<close> or \<open>undefined\<close> is an option. The source only ever tests such a field for
  truthiness, except \<open>message\<close> and \<open>detail\<close>, where \<open>None\<close> is \<open>undefined\<close>.
\<close>

record ParsedError =
  pe_line :: "int option"
  pe_message :: "string option"
  pe_hint :: "string option"
  pe_context :: "string option"

record ValidationError =
  ve_lineNumber :: int
  ve_detail :: "string option"
  ve_context :: "string option"

record CodeBlock =
  cb_code :: string
  cb_startLine :: int

record Token =
  tok_type :: string
  tok_info :: string
  tok_content :: string
  tok_lineNumber :: int

text \<open>Truthiness of a string that may be absent.\<close>

definition truthy :: "string option \<Rightarrow> bool" where
  "truthy v = (case v of None \<Rightarrow> False | Some s \<Rightarrow> s \<noteq> [])"

text \<open>The first element of \<open>s.split('\n')\<close>, which always exists.\<close>

definition first_line :: "string \<Rightarrow> string" where
  "first_line s = (case split_lines s of [] \<Rightarrow> [] | l # _ \<Rightarrow> l)"

section \<open>Token hints\<close>

record token_hint =
  th_message :: string
  th_hint :: string

definition mk_hint :: "string \<Rightarrow> string \<Rightarrow> token_hint" where
  "mk_hint m h = \<lparr>th_message = m, th_hint = h\<rparr>"

definition TOKEN_HINTS :: "(string \<times> token_hint) list" where
  "TOKEN_HINTS =
    [(''SQS'', mk_hint ''Unclosed square bracket''
        ''Add closing ] to complete the node shape: A[text]''),
     (''PS'', mk_hint ''Unclosed parenthesis''
        ''Add closing ) to complete the node shape: A(text) or A((text))''),
     (''DIAMOND_START'', mk_hint ''Unclosed curly brace or diamond''
        ''Add closing } to complete the shape: A{text} or A{{text}}''),
     (''SUBROUTINESTART'', mk_hint ''Unclosed subroutine shape''
        ''Add closing ]] to complete the subroutine: A[[text]]''),
     (''STADIUMSTART'', mk_hint ''Unclosed stadium shape''
        ''Add closing ]) to complete the stadium: A([text])''),
     (''CYLINDERSTART'', mk_hint ''Unclosed cylinder shape''
        ''Add closing ]) to complete the cylinder: A[(text)]''),
     (''DOUBLECIRCLESTART'', mk_hint ''Unclosed double circle shape''
        ''Add closing ))) to complete the double circle: A(((text)))''),
     (''TRAPSTART'', mk_hint ''Unclosed trapezoid shape''
        ''Add closing /] to complete the trapezoid: A[/text/]''),
     (''INVTRAPSTART'', mk_hint ''Unclosed inverse trapezoid shape''
        (''Add closing '' @ [bslash] @ ''] to complete the inverse trapezoid: A['' @ [bslash]
           @ ''text'' @ [bslash] @ '']'')),
     (''TAGEND'', mk_hint ''Unclosed asymmetric shape''
        ''Add closing ] to complete the asymmetric shape: A>text]''),
     (''1'', mk_hint ''Unclosed block''
        (''Add '' @ [dquote] @ ''end'' @ [dquote]
           @ '' to close subgraph, loop, alt, opt, par, critical, rect, or state block'')),
     (''EOF_IN_STRUCT'', mk_hint ''Unclosed namespace or struct block''
        ''Add closing } to complete the namespace or class definition''),
     (''STRUCT_START'', mk_hint ''Invalid struct declaration''
        ''Check class syntax: class ClassName { ... }''),
     (''NODE_STRING'', mk_hint ''Unexpected text''
        ''Check for missing arrows (-->, ---) or invalid syntax''),
     (''NEWLINE'', mk_hint ''Incomplete statement''
        ''Add missing parts (e.g., colon for messages: Alice->>Bob: message)''),
     (''EOF'', mk_hint ''Unexpected end of diagram''
        ''Statement is incomplete - add missing node, message, or closing element''),
     (''LINK'', mk_hint ''Missing link source''
        ''Add source node before arrow: A --> B''),
     (''ACTOR'', mk_hint ''Invalid participant reference''
        ''Check participant name in note/over statement''),
     (''TXT'', mk_hint ''Missing message text''
        ''Add message after colon: Alice->>Bob: Hello''),
     (''IDENTIFYING'', mk_hint ''Invalid ER relationship''
        ''Use valid relationship: ||--o{, }o--||, etc.''),
     (''ONLY_ONE'', mk_hint ''Invalid ER cardinality''
        ''Check cardinality symbols: ||, |o, o|, }|, |{, etc.''),
     (''BLOCK_STOP'', mk_hint ''Invalid ER attribute block''
        ''Check attribute syntax: EntityName { type attrName }''),
     (''INVALID'', mk_hint ''Invalid state transition''
        ''Use --> for transitions: StateA --> StateB''),
     (''taskData'', mk_hint ''Invalid task data''
        ''Check task format: taskName :status, startDate, duration''),
     (''GENERICTYPE'', mk_hint ''Invalid generic type''
        ''Check generic syntax: class ClassName~Type~''),
     (''STYLE_SEPARATOR'', mk_hint ''Invalid style syntax''
        ''Check style definition syntax''),
     (''COMMIT_ID'', mk_hint ''Invalid commit reference''
        (''Use valid commit command: commit id: '' @ [dquote] @ ''message'' @ [dquote])),
     (''COMMIT_TAG'', mk_hint ''Invalid commit tag''
        (''Use valid tag: commit tag: '' @ [dquote] @ ''v1.0'' @ [dquote]))]"

text \<open>
  \<open>TOKEN_HINTS\<close> is an object literal, so \<open>TOKEN_HINTS[token]\<close> is a property read: an own
  property gives its entry, and a name that the object inherits from \<open>Object.prototype\<close>
  gives that member, a function or object that has neither \<open>message\<close> nor \<open>hint\<close>. Every
  other name reads as \<open>undefined\<close>.
\<close>

definition object_prototype_names :: "string list" where
  "object_prototype_names =
    [''constructor'', ''hasOwnProperty'', ''isPrototypeOf'', ''propertyIsEnumerable'',
     ''toLocaleString'', ''toString'', ''valueOf'', ''__proto__'', ''__defineGetter__'',
     ''__defineSetter__'', ''__lookupGetter__'', ''__lookupSetter__'']"

datatype token_info = Entry token_hint | ProtoMember | Null

definition TOKEN_HINTS_get :: "string \<Rightarrow> token_info option" where
  "TOKEN_HINTS_get token =
     (case map_of TOKEN_HINTS token of
        Some e \<Rightarrow> Some (Entry e)
      | None \<Rightarrow> if token \<in> set object_prototype_names then Some ProtoMember else None)"

text \<open>\<open>TOKEN_HINTS[token] || null\<close>: entries and inherited members are truthy.\<close>

definition getTokenHint :: "string \<Rightarrow> token_info" where
  "getTokenHint token = (case TOKEN_HINTS_get token of Some v \<Rightarrow> v | None \<Rightarrow> Null)"

section \<open>Translating a parser message\<close>

text \<open>\<open>/^\.{3}/\<close>\<close>

definition ellipsis_re :: "item list" where
  "ellipsis_re = [Bol, Lit ''...'']"

text \<open>
  \<open>extractContext\<close>: the loop stops at the first line that contains a caret; \<open>prev\<close> is
  the line before the current one, absent at index 0.
\<close>

fun extractContext_from :: "string option \<Rightarrow> string list \<Rightarrow> string option" where
  "extractContext_from prev [] = None"
| "extractContext_from prev (l # ls) =
     (if str_includes l ''^''
      then (case prev of
              Some p \<Rightarrow> Some (trim (rx_replace False ellipsis_re [] p))
            | None \<Rightarrow> None)
      else extractContext_from (Some l) ls)"

definition extractContext :: "string list \<Rightarrow> string option" where
  "extractContext errorLines = extractContext_from None errorLines"

text \<open>\<open>/Parse error on line (\d+):/i\<close>\<close>

definition parse_error_re :: "item list" where
  "parse_error_re = [Lit ''Parse error on line '', Open, Cls Digit Plus, Close, Lit '':'']"

text \<open>\<open>/Expecting .+?, got '([^']+)'/\<close>\<close>

definition expecting_got_re :: "item list" where
  "expecting_got_re =
     [Lit ''Expecting '', Cls Dot LazyPlus, Lit ('', got '' @ [squote]),
      Open, Cls (NoneOf [squote]) Plus, Close, Lit [squote]]"

text \<open>\<open>/^Parse error on line \d+:\s*/\<close>\<close>

definition parse_error_header_re :: "item list" where
  "parse_error_header_re =
     [Bol, Lit ''Parse error on line '', Cls Digit Plus, Lit '':'', Cls Space Star]"

definition handleParseError :: "string \<Rightarrow> string list \<Rightarrow> ParsedError" where
  "handleParseError errorMessage match =
     (let line = parseInt (grp match 1);
          lines = split_lines errorMessage;
          (message, hint) =
            (case rx_exec False expecting_got_re errorMessage of
               Some expectingMatch \<Rightarrow>
                 (let got = grp expectingMatch 1 in
                  case getTokenHint got of
                    Entry tokenInfo \<Rightarrow> (Some (th_message tokenInfo), Some (th_hint tokenInfo))
                  | ProtoMember \<Rightarrow> (None, None)
                  | Null \<Rightarrow>
                      (Some (''Syntax error: unexpected '' @ [dquote] @ got @ [dquote]),
                       Some ''Check the syntax near this position''))
             | None \<Rightarrow>
                 (Some (rx_replace False parse_error_header_re [] (first_line errorMessage)),
                  None));
          context = extractContext lines
      in \<lparr>pe_line = Some line, pe_message = message, pe_hint = hint, pe_context = context\<rparr>)"

definition handleNoDiagramType :: "string \<Rightarrow> ParsedError" where
  "handleNoDiagramType c =
     (let firstLine = trim (first_line c);
          displayLine = (if firstLine \<noteq> [] then firstLine else ''(empty)'')
      in \<lparr>pe_line = Some 1,
          pe_message = Some (''Unknown diagram type: '' @ [dquote] @ displayLine @ [dquote]),
          pe_hint = Some ''Valid types: flowchart, sequenceDiagram, classDiagram, stateDiagram, erDiagram, gantt, pie, mindmap, timeline, gitGraph'',
          pe_context = (if substring0 firstLine 40 \<noteq> [] then Some (substring0 firstLine 40)
                        else None)\<rparr>)"

text \<open>
  The loop of \<open>handleUnexpectedChar\<close> over \<open>code.split('\n')\<close>, with its variables \<open>pos\<close>
  and \<open>line\<close>.
\<close>

fun walk_lines :: "string list \<Rightarrow> int \<Rightarrow> int \<Rightarrow> int \<Rightarrow> int" where
  "walk_lines [] offset pos line = line"
| "walk_lines (codeLine # rest) offset pos line =
     (if pos + int (length codeLine) \<ge> offset then line
      else walk_lines rest offset (pos + int (length codeLine) + 1) (line + 1))"

definition unexpected_char_line :: "string \<Rightarrow> int \<Rightarrow> int" where
  "unexpected_char_line c offset = walk_lines (split_lines c) offset 0 1"

definition handleUnexpectedChar :: "string list \<Rightarrow> string \<Rightarrow> ParsedError" where
  "handleUnexpectedChar match c =
     (let char = grp match 1;
          offset = parseInt (grp match 2)
      in \<lparr>pe_line = Some (unexpected_char_line c offset),
          pe_message = Some (''Unexpected character '' @ [dquote] @ char @ [dquote]),
          pe_hint = Some ''Check for typos, missing quotes, or invalid characters'',
          pe_context = None\<rparr>)"

text \<open>\<open>/Lexical error on line (\d+)/i\<close>\<close>

definition lexical_re :: "item list" where
  "lexical_re = [Lit ''Lexical error on line '', Open, Cls Digit Plus, Close]"

text \<open>\<open>/unexpected character: ->(.)<- at offset: (\d+)/\<close>\<close>

definition unexpected_char_re :: "item list" where
  "unexpected_char_re =
     [Lit ''unexpected character: ->'', Open, Cls Dot Once, Close, Lit ''<- at offset: '',
      Open, Cls Digit Plus, Close]"

text \<open>\<open>/Expecting(?: token of type)? '?([^']+)'? but/i\<close>\<close>

definition expecting_token_re :: "item list" where
  "expecting_token_re =
     [Lit ''Expecting'', OptLit '' token of type'', Lit '' '', Cls (OneOf [squote]) Opt,
      Open, Cls (NoneOf [squote]) Plus, Close, Cls (OneOf [squote]) Opt, Lit '' but'']"

definition lexical_result :: "string list \<Rightarrow> ParsedError" where
  "lexical_result lexicalMatch =
     \<lparr>pe_line = Some (parseInt (grp lexicalMatch 1)),
      pe_message = Some ''Unrecognized text or keyword'',
      pe_hint = Some ''Check for typos, invalid keywords, or unsupported syntax'',
      pe_context = None\<rparr>"

definition expecting_token_result :: "string list \<Rightarrow> ParsedError" where
  "expecting_token_result expectingTokenMatch =
     \<lparr>pe_line = Some 1,
      pe_message = Some (''Expected '' @ grp expectingTokenMatch 1),
      pe_hint = Some ''Check the diagram syntax and structure'',
      pe_context = None\<rparr>"

definition one_of_these_result :: ParsedError where
  "one_of_these_result =
     \<lparr>pe_line = Some 1,
      pe_message = Some ''Invalid syntax'',
      pe_hint = Some ''Check command syntax (e.g., branch name, checkout target)'',
      pe_context = None\<rparr>"

definition default_result :: "string \<Rightarrow> ParsedError" where
  "default_result errorMessage =
     \<lparr>pe_line = None,
      pe_message = Some (substring0 (first_line errorMessage) 150),
      pe_hint = Some ''Check the diagram syntax for errors'',
      pe_context = None\<rparr>"

definition parseErrorMessage :: "string \<Rightarrow> string \<Rightarrow> ParsedError" where
  "parseErrorMessage errorMessage c =
     (case rx_exec True parse_error_re errorMessage of
        Some parseErrorMatch \<Rightarrow> handleParseError errorMessage parseErrorMatch
      | None \<Rightarrow>
     (case rx_exec True lexical_re errorMessage of
        Some lexicalMatch \<Rightarrow> lexical_result lexicalMatch
      | None \<Rightarrow>
     if str_includes errorMessage ''No diagram type detected'' then handleNoDiagramType c
     else
     (case rx_exec False unexpected_char_re errorMessage of
        Some unexpectedCharMatch \<Rightarrow> handleUnexpectedChar unexpectedCharMatch c
      | None \<Rightarrow>
     (case rx_exec True expecting_token_re errorMessage of
        Some expectingTokenMatch \<Rightarrow> expecting_token_result expectingTokenMatch
      | None \<Rightarrow>
     if str_includes errorMessage ''Expecting: one of these possible'' then one_of_these_result
     else default_result errorMessage))))"

text \<open>
  \<open>formatErrorDetail\<close>: \<open>detail += `. ${hint}`\<close> turns an undefined message into the text
  \<open>undefined\<close>.
\<close>

definition to_text :: "string option \<Rightarrow> string" where
  "to_text v = (case v of None \<Rightarrow> ''undefined'' | Some s \<Rightarrow> s)"

definition formatErrorDetail :: "ParsedError \<Rightarrow> string option" where
  "formatErrorDetail parsed =
     (case pe_hint parsed of
        None \<Rightarrow> pe_message parsed
      | Some h \<Rightarrow>
          if h \<noteq> [] then Some (to_text (pe_message parsed) @ ''. '' @ h)
          else pe_message parsed)"

text \<open>
  \<open>toValidationError\<close>: \<open>parsed.line ? ... : ...\<close> takes the second branch for \<open>null\<close> and
  for 0, and \<open>parsed.context || ...\<close> takes the right operand for \<open>null\<close> and for the
  empty string.
\<close>

definition toValidationError :: "ParsedError \<Rightarrow> int \<Rightarrow> string \<Rightarrow> ValidationError" where
  "toValidationError parsed startLine c =
     \<lparr>ve_lineNumber =
        (case pe_line parsed of
           None \<Rightarrow> startLine
         | Some l \<Rightarrow> if l \<noteq> 0 then startLine + l - 1 else startLine),
      ve_detail = formatErrorDetail parsed,
      ve_context =
        (if truthy (pe_context parsed) then pe_context parsed
         else (case split_lines c of
                 [] \<Rightarrow> None
               | l # _ \<Rightarrow> Some (substring0 l 40)))\<rparr>"

section \<open>Validating one block\<close>

definition empty_detail :: string where
  "empty_detail =
     ''Empty Mermaid diagram. Add a diagram type (e.g., flowchart, sequenceDiagram) and content''"

definition checkNotEmpty :: "CodeBlock \<Rightarrow> ValidationError + CodeBlock" where
  "checkNotEmpty block =
     (let trimmed = trim (cb_code block) in
      if trimmed = []
      then Inl \<lparr>ve_lineNumber = cb_startLine block, ve_detail = Some empty_detail,
                ve_context = None\<rparr>
      else Inr \<lparr>cb_code = trimmed, cb_startLine = cb_startLine block\<rparr>)"

text \<open>
  The external parser: \<open>mermaid.parse(code)\<close> resolves, or rejects with an \<open>Error\<close> that
  carries a message, or rejects with some other value. A validation returns, beside its
  result, the list of the codes it handed to the parser.
\<close>

datatype parse_outcome = Parsed | ThrowsError string | ThrowsOther

type_synonym parser = "string \<Rightarrow> parse_outcome"

definition parseMermaidSyntax :: "parser \<Rightarrow> CodeBlock \<Rightarrow> string list \<times> (ValidationError + CodeBlock)" where
  "parseMermaidSyntax parse block =
     ([cb_code block],
      (case parse (cb_code block) of
         Parsed \<Rightarrow> Inr block
       | ThrowsError m \<Rightarrow>
           Inl (toValidationError (parseErrorMessage m (cb_code block))
                  (cb_startLine block) (cb_code block))
       | ThrowsOther \<Rightarrow>
           Inl (toValidationError (parseErrorMessage ''Unknown parse error'' (cb_code block))
                  (cb_startLine block) (cb_code block))))"

definition validateMermaidBlock :: "parser \<Rightarrow> CodeBlock \<Rightarrow> string list \<times> (ValidationError + CodeBlock)" where
  "validateMermaidBlock parse block =
     (case checkNotEmpty block of
        Inl e \<Rightarrow> ([], Inl e)
      | Inr trimmedBlock \<Rightarrow> parseMermaidSyntax parse trimmedBlock)"

text \<open>\<open>/^([a-zA-Z][a-zA-Z0-9_-]*)/\<close>\<close>

definition diagram_type_re :: "item list" where
  "diagram_type_re = [Bol, Open, Cls Alpha Once, Cls IdChar Star, Close]"

text \<open>
  The loop of \<open>validateBasicBlock\<close>: blank lines and lines that start with \<open>%%\<close> are
  skipped, the first other line decides \<open>foundType\<close> and ends the loop.
\<close>

fun find_type :: "string list \<Rightarrow> bool" where
  "find_type [] = False"
| "find_type (line # rest) =
     (let trimmedLine = trim line in
      if trimmedLine = [] \<or> startsWith trimmedLine ''%%'' then find_type rest
      else rx_exec False diagram_type_re trimmedLine \<noteq> None)"

definition missing_type_detail :: string where
  "missing_type_detail =
     ''Missing diagram type declaration. Start with a diagram type like: flowchart, sequenceDiagram, classDiagram''"

definition validateBasicBlock :: "CodeBlock \<Rightarrow> ValidationError + CodeBlock" where
  "validateBasicBlock block =
     (case checkNotEmpty block of
        Inl e \<Rightarrow> Inl e
      | Inr trimmedBlock \<Rightarrow>
          (let lines = split_lines (cb_code trimmedBlock) in
           if \<not> find_type lines
           then Inl \<lparr>ve_lineNumber = cb_startLine block, ve_detail = Some missing_type_detail,
                     ve_context =
                       (case lines of
                          [] \<Rightarrow> None
                        | l # _ \<Rightarrow> Some (substring0 (trim l) 40))\<rparr>
           else Inr trimmedBlock))"

section \<open>Extracting the blocks\<close>

definition class_attr :: "string \<Rightarrow> item list" where
  "class_attr keyword =
     [Cls (NoneOf ''>'') Star, WordB, Lit ''class'', Cls Space Star, Lit ''='', Cls Space Star,
      Cls (OneOf [dquote, squote]) Once, Cls (NoneOf [dquote, squote]) Star,
      WordB, Lit keyword, WordB,
      Cls (NoneOf [dquote, squote]) Star, Cls (OneOf [dquote, squote]) Once,
      Cls (NoneOf ''>'') Star, Lit ''>'', Open, Cls AnyChar LazyStar, Close]"

text \<open>
  The three patterns, all with flags \<open>gi\<close>:
  \<^item> \<open><pre[^>]*\bclass\s*=\s*["'][^"']*\bmermaid\b[^"']*["'][^>]*>([\s\S]*?)<\/pre>\<close>
  \<^item> \<open><div[^>]*\bclass\s*=\s*["'][^"']*\bmermaid\b[^"']*["'][^>]*>([\s\S]*?)<\/div>\<close>
  \<^item> \<open><code[^>]*\bclass\s*=\s*["'][^"']*\blanguage-mermaid\b[^"']*["'][^>]*>([\s\S]*?)<\/code>\<close>
\<close>

definition pre_re :: "item list" where
  "pre_re = Lit ''<pre'' # class_attr ''mermaid'' @ [Lit ''</pre>'']"

definition div_re :: "item list" where
  "div_re = Lit ''<div'' # class_attr ''mermaid'' @ [Lit ''</div>'']"

definition code_re :: "item list" where
  "code_re = Lit ''<code'' # class_attr ''language-mermaid'' @ [Lit ''</code>'']"

definition HTML_MERMAID_PATTERNS :: "item list list" where
  "HTML_MERMAID_PATTERNS = [pre_re, div_re, code_re]"

definition decodeHtmlEntities :: "string \<Rightarrow> string" where
  "decodeHtmlEntities c =
     replaceAll ''&nbsp;'' '' ''
       (replaceAll ''&#39;'' [squote]
         (replaceAll ''&quot;'' [dquote]
           (replaceAll ''&amp;'' ''&''
             (replaceAll ''&gt;'' ''>''
               (replaceAll ''&lt;'' ''<'' c)))))"

text \<open>The body of the inner loop of \<open>extractMermaidFromHtml\<close>, for one match.\<close>

definition html_block :: "string \<Rightarrow> int \<Rightarrow> nat \<times> string list \<Rightarrow> CodeBlock" where
  "html_block html startLine m =
     (let decodedCode = decodeHtmlEntities (grp (snd m) 1);
          beforeMatch = take (fst m) html;
          lineOffset = count_newlines beforeMatch
      in \<lparr>cb_code = trim decodedCode, cb_startLine = startLine + int lineOffset\<rparr>)"

text \<open>The outer loop runs over the patterns, the inner one over the matches of a pattern.\<close>

definition pattern_blocks :: "string \<Rightarrow> int \<Rightarrow> item list \<Rightarrow> CodeBlock list" where
  "pattern_blocks html startLine pattern =
     map (html_block html startLine) (matchAll True pattern html)"

definition extractMermaidFromHtml :: "string \<Rightarrow> int \<Rightarrow> CodeBlock list" where
  "extractMermaidFromHtml html startLine =
     foldl (\<lambda>blocks pattern. blocks @ pattern_blocks html startLine pattern)
       [] HTML_MERMAID_PATTERNS"

text \<open>\<open>toLowerCase\<close> on code units below 256: the ASCII and the Latin-1 capital letters.\<close>

definition toLowerCase :: "string \<Rightarrow> string" where
  "toLowerCase s =
     map (\<lambda>c. if (65 \<le> code c \<and> code c \<le> 90) \<or> (192 \<le> code c \<and> code c \<le> 222 \<and> code c \<noteq> 215)
               then char_of (code c + 32) else c) s"

definition token_blocks :: "Token \<Rightarrow> CodeBlock list" where
  "token_blocks token =
     (if tok_type token = ''fence''
      then (if toLowerCase (trim (tok_info token)) = ''mermaid''
            then [\<lparr>cb_code = tok_content token, cb_startLine = tok_lineNumber token\<rparr>]
            else [])
      else if tok_type token = ''html_block''
      then extractMermaidFromHtml (tok_content token) (tok_lineNumber token)
      else [])"

definition extractMermaidBlocks :: "Token list \<Rightarrow> CodeBlock list" where
  "extractMermaidBlocks tokens = foldl (\<lambda>blocks token. blocks @ token_blocks token) [] tokens"

section \<open>The rule\<close>

text \<open>
  The callback \<open>onError\<close> is a log: each call appends its argument. The basic branch is
  the loop \<open>for (const block of blocks) validateBasicBlock(block).mapErr(onError)\<close>.
\<close>

definition run_basic :: "CodeBlock list \<Rightarrow> ValidationError list" where
  "run_basic blocks =
     foldl (\<lambda>log block. case validateBasicBlock block of Inl e \<Rightarrow> log @ [e] | Inr _ \<Rightarrow> log)
       [] blocks"

text \<open>
  \<open>ResultAsync.combineWithAllErrors\<close> waits for all validations with \<open>Promise.all\<close> and then
  folds over their results. The validations settle in some order \<open>sched\<close>, a list of their
  indices; \<open>Promise.all\<close> stores each result at the index of its validation and resolves
  once every slot is filled. When a slot stays empty it never resolves: \<open>None\<close>.
\<close>

definition settle :: "'a list \<Rightarrow> nat list \<Rightarrow> 'a option list" where
  "settle results sched =
     foldl (\<lambda>slots i. if i < length slots then slots[i := Some (results ! i)] else slots)
       (replicate (length results) None) sched"

definition promise_all :: "'a list \<Rightarrow> nat list \<Rightarrow> 'a list option" where
  "promise_all results sched = those (settle results sched)"

fun combine_step :: "'e list + 'a list \<Rightarrow> 'e + 'a \<Rightarrow> 'e list + 'a list" where
  "combine_step (Inl errors) (Inl e) = Inl (errors @ [e])"
| "combine_step (Inr vals) (Inl e) = Inl [e]"
| "combine_step (Inr vals) (Inr v) = Inr (vals @ [v])"
| "combine_step (Inl errors) (Inr v) = Inl errors"

definition combineWithAllErrors :: "('e + 'a) list \<Rightarrow> 'e list + 'a list" where
  "combineWithAllErrors results = foldl combine_step (Inr []) results"

record run =
  reported :: "ValidationError list"
  parser_calls :: "string list"

text \<open>
  The full branch: every block is validated, the results are awaited and combined, and
  \<open>results.mapErr\<close> reports the collected errors one by one.
\<close>

definition run_full :: "parser \<Rightarrow> nat list \<Rightarrow> CodeBlock list \<Rightarrow> run option" where
  "run_full parse sched blocks =
     (let validations = map (validateMermaidBlock parse) blocks in
      case promise_all (map snd validations) sched of
        None \<Rightarrow> None
      | Some results \<Rightarrow>
          Some \<lparr>reported =
                  (case combineWithAllErrors results of
                     Inl errors \<Rightarrow> foldl (\<lambda>log error. log @ [error]) [] errors
                   | Inr _ \<Rightarrow> []),
                parser_calls = concat (map fst validations)\<rparr>)"

text \<open>\<open>config.basic ?? false\<close>: an absent configuration or option counts as \<open>false\<close>.\<close>

definition mermaidSyntaxRule :: "bool option \<Rightarrow> parser \<Rightarrow> nat list \<Rightarrow> Token list \<Rightarrow> run option" where
  "mermaidSyntaxRule basic parse sched tokens =
     (let useBasic = (case basic of None \<Rightarrow> False | Some b \<Rightarrow> b);
          blocks = extractMermaidBlocks tokens
      in if useBasic then Some \<lparr>reported = run_basic blocks, parser_calls = []\<rparr>
         else run_full parse sched blocks)"

section \<open>Loading the parser\<close>

text \<open>
  \<open>getMermaid\<close> is an async function with one \<open>await\<close>. A call runs up to the \<open>await\<close>
  at once (\<open>getMermaid_enter\<close>) and the rest when the import has resolved
  (\<open>getMermaid_resume\<close>); nothing else runs in between the statements of one part. The
  state holds the module variable \<open>mermaidInstance\<close>, whether \<open>globalThis.window\<close> is
  defined, and counters of the DOM set-ups and of the calls of \<open>mermaid.initialize\<close>.
\<close>

record backend =
  mermaidInstance :: bool
  window_defined :: bool
  dom_setups :: nat
  initialize_calls :: nat

datatype getMermaid_call = Returned | AwaitingImport

definition getMermaid_enter :: "backend \<Rightarrow> backend \<times> getMermaid_call" where
  "getMermaid_enter b =
     (if mermaidInstance b then (b, Returned)
      else ((if \<not> window_defined b
             then b\<lparr>window_defined := True, dom_setups := dom_setups b + 1\<rparr>
             else b),
            AwaitingImport))"

definition getMermaid_resume :: "backend \<Rightarrow> backend" where
  "getMermaid_resume b = b\<lparr>initialize_calls := initialize_calls b + 1, mermaidInstance := True\<rparr>"

text \<open>
  \<open>blocks.map((block) => validateMermaidBlock(block))\<close> enters \<open>getMermaid\<close> once for every
  block that is not empty, before any of the calls resumes.
\<close>

fun enter_all :: "nat \<Rightarrow> backend \<Rightarrow> backend \<times> getMermaid_call list" where
  "enter_all 0 b = (b, [])"
| "enter_all (Suc n) b =
     (let (b1, c) = getMermaid_enter b; (b2, cs) = enter_all n b1 in (b2, c # cs))"

fun resume_all :: "getMermaid_call list \<Rightarrow> backend \<Rightarrow> backend" where
  "resume_all [] b = b"
| "resume_all (Returned # cs) b = resume_all cs b"
| "resume_all (AwaitingImport # cs) b = resume_all cs (getMermaid_resume b)"

definition concurrent_getMermaid :: "nat \<Rightarrow> backend \<Rightarrow> backend" where
  "concurrent_getMermaid n b = (let (b1, calls) = enter_all n b in resume_all calls b1)"

definition fresh_backend :: backend where
  "fresh_backend =
     \<lparr>mermaidInstance = False, window_defined = False, dom_setups = 0, initialize_calls = 0\<rparr>"

text \<open>\<open>calculateKatexErrorLine\<close>\<close>

definition calculateKatexErrorLine :: "string \<Rightarrow> int \<Rightarrow> int \<Rightarrow> int" where
  "calculateKatexErrorLine c position startLine =
     (let beforeError = substring0 c position;
          lineOffset = count_newlines beforeError
      in startLine + int lineOffset)"

section \<open>Auxiliary notions for the properties\<close>

text \<open>The errors among a list of results, in the order of the list.\<close>

fun lefts :: "('e + 'a) list \<Rightarrow> 'e list" where
  "lefts [] = []"
| "lefts (Inl e # rs) = e # lefts rs"
| "lefts (Inr v # rs) = lefts rs"

text \<open>What the blocks of a list contribute in full and in basic mode, block by block.\<close>

definition full_errors :: "parser \<Rightarrow> CodeBlock list \<Rightarrow> ValidationError list" where
  "full_errors parse blocks = lefts (map (\<lambda>b. snd (validateMermaidBlock parse b)) blocks)"

definition full_calls :: "parser \<Rightarrow> CodeBlock list \<Rightarrow> string list" where
  "full_calls parse blocks = concat (map (\<lambda>b. fst (validateMermaidBlock parse b)) blocks)"

definition basic_errors :: "CodeBlock list \<Rightarrow> ValidationError list" where
  "basic_errors blocks = lefts (map validateBasicBlock blocks)"

text \<open>The error of \<open>checkNotEmpty\<close>.\<close>

definition empty_error :: "CodeBlock \<Rightarrow> ValidationError" where
  "empty_error block =
     \<lparr>ve_lineNumber = cb_startLine block, ve_detail = Some empty_detail, ve_context = None\<rparr>"

section \<open>Example inputs and the wording of the specification\<close>

definition ex_unclosed_block :: CodeBlock where
  "ex_unclosed_block =
     \<lparr>cb_code = ''flowchart LR'' @ [newline] @ ''A --> B'' @ [newline] @ ''C --> [D'' @ [newline],
      cb_startLine = 2\<rparr>"

definition ex_unclosed_message :: string where
  "ex_unclosed_message =
     ''Parse error on line 3:'' @ [newline] @ ''...> B'' @ [newline] @ ''C --> [D'' @ [newline]
       @ ''-----------------^'' @ [newline]
       @ ''Expecting '' @ [squote] @ ''SQE'' @ [squote] @ '', '' @ [squote] @ ''PE'' @ [squote]
       @ '', got '' @ [squote] @ ''1'' @ [squote]"

definition ex_blank_block :: CodeBlock where
  "ex_blank_block = \<lparr>cb_code = ''  '' @ [newline] @ '' '', cb_startLine = 2\<rparr>"

definition ex_unknown_block :: CodeBlock where
  "ex_unknown_block =
     \<lparr>cb_code = ''invalidDiagram'' @ [newline] @ ''A --> B'' @ [newline], cb_startLine = 6\<rparr>"

definition ex_no_type_message :: string where
  "ex_no_type_message = ''No diagram type detected matching given configuration for text: invalidDiagram''"

definition ex_parser :: parser where
  "ex_parser c = ThrowsError ex_no_type_message"

definition ex_four_lines :: string where
  "ex_four_lines = ''ab'' @ [newline] @ ''cd'' @ [newline] @ [newline] @ ''ef''"

text \<open>
  The wording of the specification for basic mode: the lines that count are the trimmed
  lines that are neither blank nor start with \<open>%%\<close>; a line is identifier-shaped when it
  begins with a letter (the letters, digits, underscores and hyphens that may follow
  impose nothing). A diagram type is missing when the first line that counts is not
  identifier-shaped, or when no line counts.
\<close>

definition content_lines :: "string \<Rightarrow> string list" where
  "content_lines c =
     filter (\<lambda>l. l \<noteq> [] \<and> \<not> startsWith l ''%%'') (map trim (split_lines c))"

definition identifier_shaped :: "string \<Rightarrow> bool" where
  "identifier_shaped l = (case l of [] \<Rightarrow> False | x # _ \<Rightarrow> is_alpha x)"

definition missing_diagram_type :: "string \<Rightarrow> bool" where
  "missing_diagram_type c =
     (case content_lines c of [] \<Rightarrow> True | l # _ \<Rightarrow> \<not> identifier_shaped l)"

definition ex_comment_block :: CodeBlock where
  "ex_comment_block =
     \<lparr>cb_code = ''%% note'' @ [newline] @ ''  123 oops'' @ [newline], cb_startLine = 9\<rparr>"

definition ex_flow_block :: CodeBlock where
  "ex_flow_block =
     \<lparr>cb_code = [newline] @ '' %% note'' @ [newline] @ ''  flowchart LR'' @ [newline],
      cb_startLine = 20\<rparr>"

text \<open>
  The wording of the specification for the translator: an ordered list of rules, each with
  a test and a result; the first rule whose test succeeds gives the diagnostic, and the
  default applies when none does.
\<close>

datatype rule_id =
  ParseErrorRule | LexicalRule | NoDiagramTypeRule | UnexpectedCharRule | ExpectingTokenRule
  | OneOfTheseRule

definition cascade :: "rule_id list" where
  "cascade =
     [ParseErrorRule, LexicalRule, NoDiagramTypeRule, UnexpectedCharRule, ExpectingTokenRule,
      OneOfTheseRule]"

fun rule_matches :: "string \<Rightarrow> rule_id \<Rightarrow> bool" where
  "rule_matches m ParseErrorRule = (rx_exec True parse_error_re m \<noteq> None)"
| "rule_matches m LexicalRule = (rx_exec True lexical_re m \<noteq> None)"
| "rule_matches m NoDiagramTypeRule = str_includes m ''No diagram type detected''"
| "rule_matches m UnexpectedCharRule = (rx_exec False unexpected_char_re m \<noteq> None)"
| "rule_matches m ExpectingTokenRule = (rx_exec True expecting_token_re m \<noteq> None)"
| "rule_matches m OneOfTheseRule = str_includes m ''Expecting: one of these possible''"

definition captures :: "string list option \<Rightarrow> string list" where
  "captures r = (case r of None \<Rightarrow> [] | Some caps \<Rightarrow> caps)"

fun rule_result :: "string \<Rightarrow> string \<Rightarrow> rule_id \<Rightarrow> ParsedError" where
  "rule_result m c ParseErrorRule = handleParseError m (captures (rx_exec True parse_error_re m))"
| "rule_result m c LexicalRule = lexical_result (captures (rx_exec True lexical_re m))"
| "rule_result m c NoDiagramTypeRule = handleNoDiagramType c"
| "rule_result m c UnexpectedCharRule =
     handleUnexpectedChar (captures (rx_exec False unexpected_char_re m)) c"
| "rule_result m c ExpectingTokenRule =
     expecting_token_result (captures (rx_exec True expecting_token_re m))"
| "rule_result m c OneOfTheseRule = one_of_these_result"

definition first_match :: "string \<Rightarrow> rule_id option" where
  "first_match m = find (rule_matches m) cascade"

definition ex_two_rules_message :: string where
  "ex_two_rules_message = ''Lexical error on line 7. No diagram type detected''"

definition ex_unknown_message :: string where
  "ex_unknown_message = ''Diagram failed to load'' @ [newline] @ ''at line 2''"

definition ex_caret_message :: string where
  "ex_caret_message = ''Parse error on line 1:'' @ [newline] @ ''...'' @ [newline] @ ''^''"

definition ex_caret_parser :: parser where
  "ex_caret_parser c = ThrowsError ex_caret_message"

definition ex_graph_block :: CodeBlock where
  "ex_graph_block = \<lparr>cb_code = ''graph TD'' @ [newline] @ ''A['' @ [newline], cb_startLine = 3\<rparr>"

definition ex_constructor_message :: string where
  "ex_constructor_message =
     ''Parse error on line 1:'' @ [newline] @ ''Expecting '' @ [squote] @ ''SQE'' @ [squote]
       @ '', got '' @ [squote] @ ''constructor'' @ [squote]"

definition ex_div_pre_html :: string where
  "ex_div_pre_html =
     ''<div class='' @ [dquote] @ ''mermaid'' @ [dquote] @ ''>graph TD</div>'' @ [newline]
       @ ''<pre class='' @ [dquote] @ ''mermaid'' @ [dquote] @ ''>pie</pre>'' @ [newline]"

definition ex_html_token :: Token where
  "ex_html_token =
     \<lparr>tok_type = ''html_block'', tok_info = [], tok_content = ex_div_pre_html,
      tok_lineNumber = 5\<rparr>"

definition ex_got_message :: "string \<Rightarrow> string" where
  "ex_got_message tok =
     ''Parse error on line 3:'' @ [newline] @ ''...[D'' @ [newline] @ ''----^'' @ [newline]
       @ ''Expecting '' @ [squote] @ ''SQE'' @ [squote] @ '', got '' @ [squote] @ tok @ [squote]"

section \<open>Properties of the orchestration\<close>

lemma lefts_append: "lefts (xs @ ys) = lefts xs @ lefts ys"
  by (induction xs rule: lefts.induct) simp_all

lemma foldl_snoc: "foldl (\<lambda>log e. log @ [e]) acc es = acc @ es"
  by (induction es arbitrary: acc) simp_all

lemma settle_step_length:
  "length (foldl (\<lambda>slots i. if i < length slots then slots[i := Some (results ! i)] else slots) slots sched) = length slots"
  by (induction sched arbitrary: slots) simp_all

lemma settle_step_nth:
  "i < length slots \<Longrightarrow>
   foldl (\<lambda>slots i. if i < length slots then slots[i := Some (results ! i)] else slots) slots sched ! i =
     (if i \<in> set sched then Some (results ! i)
      else slots ! i)"
proof (induction sched arbitrary: slots rule: rev_induct)
  case Nil
  then show ?case by simp
next
  case (snoc j sched)
  then show ?case
    by (simp add: settle_step_length nth_list_update)
qed

lemma settle_complete:
  assumes "set sched = {..<length results}"
  shows "settle results sched = map Some results"
proof (rule nth_equalityI)
  show "length (settle results sched) = length (map Some results)"
    by (simp add: settle_def settle_step_length)
next
  fix i assume "i < length (settle results sched)"
  then have i: "i < length results"
    by (simp add: settle_def settle_step_length)
  then have "i \<in> set sched" using assms by simp
  with i show "settle results sched ! i = map Some results ! i"
    by (simp add: settle_def settle_step_nth)
qed

lemma those_map_Some: "those (map Some xs) = Some xs"
  by (induction xs) simp_all

lemma promise_all_complete:
  "set sched = {..<length results} \<Longrightarrow> promise_all results sched = Some results"
  by (simp add: promise_all_def settle_complete those_map_Some)

lemma combine_Inl: "foldl combine_step (Inl es) rs = Inl (es @ lefts rs)"
  by (induction rs arbitrary: es rule: lefts.induct) simp_all

lemma combine_Inr_none:
  "lefts rs = [] \<Longrightarrow> \<exists>ws. foldl combine_step (Inr vs) rs = Inr ws"
  by (induction rs arbitrary: vs rule: lefts.induct) simp_all

lemma combine_Inr_some:
  "lefts rs \<noteq> [] \<Longrightarrow> foldl combine_step (Inr vs) rs = Inl (lefts rs)"
  by (induction rs arbitrary: vs rule: lefts.induct) (simp_all add: combine_Inl)

lemma combine_reported:
  "(case combineWithAllErrors rs of
      Inl errors \<Rightarrow> foldl (\<lambda>log error. log @ [error]) [] errors
    | Inr _ \<Rightarrow> []) = lefts rs"
proof (cases "lefts rs = []")
  case True
  then obtain ws where "foldl combine_step (Inr []) rs = Inr ws"
    using combine_Inr_none by blast
  with True show ?thesis by (simp add: combineWithAllErrors_def)
next
  case False
  then show ?thesis
    by (simp add: combineWithAllErrors_def combine_Inr_some foldl_snoc)
qed

lemma run_full_complete:
  assumes "set sched = {..<length blocks}"
  shows "run_full parse sched blocks =
           Some \<lparr>reported = full_errors parse blocks, parser_calls = full_calls parse blocks\<rparr>"
proof -
  have "promise_all (map snd (map (validateMermaidBlock parse) blocks)) sched =
          Some (map snd (map (validateMermaidBlock parse) blocks))"
    using assms by (intro promise_all_complete) simp
  then show ?thesis
    by (simp add: run_full_def Let_def combine_reported full_errors_def full_calls_def comp_def)
qed

lemma run_basic_errors: "run_basic blocks = basic_errors blocks"
proof -
  have "\<And>acc. foldl (\<lambda>log block. case validateBasicBlock block of Inl e \<Rightarrow> log @ [e] | Inr _ \<Rightarrow> log) acc blocks
          = acc @ basic_errors blocks"
    by (induction blocks) (simp_all add: basic_errors_def split: sum.splits)
  then show ?thesis by (simp add: run_basic_def)
qed

section \<open>Line numbers\<close>

lemma toValidationError_lineNumber:
  "ve_lineNumber (toValidationError parsed S c) =
     (case pe_line parsed of None \<Rightarrow> S | Some L \<Rightarrow> if L \<noteq> 0 then S + L - 1 else S)"
  by (simp add: toValidationError_def)

lemma checkNotEmpty_startLine:
  "checkNotEmpty block = Inr tb \<Longrightarrow> cb_startLine tb = cb_startLine block \<and> cb_code tb = trim (cb_code block) \<and> cb_code tb \<noteq> []"
  by (auto simp: checkNotEmpty_def Let_def split: if_splits)

text \<open>
  C1. A block that passes the empty check and on which the parser fails yields an error;
  when the translator gives a line \<open>L \<ge> 1\<close> the error is at \<open>startLine + L - 1\<close>, and
  when it gives no line the error is at \<open>startLine\<close>.
\<close>

theorem line_offset_law:
  assumes "checkNotEmpty block = Inr tb"
    and "parse (cb_code tb) = ThrowsError m \<or> (parse (cb_code tb) = ThrowsOther \<and> m = ''Unknown parse error'')"
  shows "\<exists>e. snd (validateMermaidBlock parse block) = Inl e \<and>
           (\<forall>L. pe_line (parseErrorMessage m (cb_code tb)) = Some L \<and> 1 \<le> L \<longrightarrow>
              ve_lineNumber e = cb_startLine block + L - 1) \<and>
           (pe_line (parseErrorMessage m (cb_code tb)) = None \<longrightarrow>
              ve_lineNumber e = cb_startLine block)"
proof (intro exI conjI)
  show "snd (validateMermaidBlock parse block) =
      Inl (toValidationError (parseErrorMessage m (cb_code tb)) (cb_startLine block) (cb_code tb))"
    using assms checkNotEmpty_startLine [OF assms(1)]
    by (auto simp: validateMermaidBlock_def parseMermaidSyntax_def)
  show "\<forall>L. pe_line (parseErrorMessage m (cb_code tb)) = Some L \<and> 1 \<le> L \<longrightarrow>
      ve_lineNumber (toValidationError (parseErrorMessage m (cb_code tb)) (cb_startLine block)
        (cb_code tb)) = cb_startLine block + L - 1"
    by (auto simp: toValidationError_lineNumber)
  show "pe_line (parseErrorMessage m (cb_code tb)) = None \<longrightarrow>
      ve_lineNumber (toValidationError (parseErrorMessage m (cb_code tb)) (cb_startLine block)
        (cb_code tb)) = cb_startLine block"
    by (simp add: toValidationError_lineNumber)
qed

theorem line_offset_law_witness:
  "\<exists>e. snd (validateMermaidBlock (\<lambda>c. ThrowsError ex_unclosed_message) ex_unclosed_block) = Inl e
      \<and> ve_lineNumber e = 4"
proof -
  let ?tb = "\<lparr>cb_code = trim (cb_code ex_unclosed_block), cb_startLine = 2\<rparr>"
  let ?p = "\<lambda>c::string. ThrowsError ex_unclosed_message"
  have h1: "checkNotEmpty ex_unclosed_block = Inr ?tb"
    by code_simp
  have h2: "?p (cb_code ?tb) = ThrowsError ex_unclosed_message
      \<or> (?p (cb_code ?tb) = ThrowsOther \<and> ex_unclosed_message = ''Unknown parse error'')"
    by simp
  have l: "pe_line (parseErrorMessage ex_unclosed_message (cb_code ?tb)) = Some 3"
    by code_simp
  have s: "cb_startLine ex_unclosed_block = 2"
    by (simp add: ex_unclosed_block_def)
  obtain e where e: "snd (validateMermaidBlock ?p ex_unclosed_block) = Inl e"
    and L: "\<forall>L. pe_line (parseErrorMessage ex_unclosed_message (cb_code ?tb)) = Some L \<and> 1 \<le> L \<longrightarrow>
              ve_lineNumber e = cb_startLine ex_unclosed_block + L - 1"
    using line_offset_law [OF h1 h2] by blast
  from L l have "ve_lineNumber e = cb_startLine ex_unclosed_block + 3 - 1"
    by simp
  with s e show ?thesis by simp
qed

section \<open>Empty blocks\<close>

lemma checkNotEmpty_empty:
  "trim (cb_code block) = [] \<Longrightarrow> checkNotEmpty block = Inl (empty_error block)"
  by (simp add: checkNotEmpty_def empty_error_def)

lemma full_errors_append:
  "full_errors parse (xs @ ys) = full_errors parse xs @ full_errors parse ys"
  by (simp add: full_errors_def lefts_append)

lemma full_calls_append:
  "full_calls parse (xs @ ys) = full_calls parse xs @ full_calls parse ys"
  by (simp add: full_calls_def)

lemma basic_errors_append:
  "basic_errors (xs @ ys) = basic_errors xs @ basic_errors ys"
  by (simp add: basic_errors_def lefts_append)

text \<open>
  C2. A block whose trimmed code is empty fails both validations with the error of the
  empty check at its own start line, and hands nothing to the parser. Among other blocks
  it contributes exactly this one error to the report of either mode, and no parser call.
\<close>

theorem empty_content_law:
  assumes "trim (cb_code block) = []"
  shows "validateBasicBlock block = Inl (empty_error block) \<and>
         validateMermaidBlock parse block = ([], Inl (empty_error block)) \<and>
         ve_lineNumber (empty_error block) = cb_startLine block \<and>
         run_basic (before @ block # after) =
           run_basic before @ empty_error block # run_basic after \<and>
         (set sched = {..<length (before @ block # after)} \<longrightarrow>
            run_full parse sched (before @ block # after) =
              Some \<lparr>reported = full_errors parse before @ empty_error block # full_errors parse after,
                    parser_calls = full_calls parse before @ full_calls parse after\<rparr>)"
proof (intro conjI impI)
  show b: "validateBasicBlock block = Inl (empty_error block)"
    using assms by (simp add: validateBasicBlock_def checkNotEmpty_empty)
  show f: "validateMermaidBlock parse block = ([], Inl (empty_error block))"
    using assms by (simp add: validateMermaidBlock_def checkNotEmpty_empty)
  show "ve_lineNumber (empty_error block) = cb_startLine block"
    by (simp add: empty_error_def)
  have "basic_errors [block] = [empty_error block]"
    using b by (simp add: basic_errors_def)
  then show "run_basic (before @ block # after) =
      run_basic before @ empty_error block # run_basic after"
    using basic_errors_append [of before "[block] @ after"] basic_errors_append [of "[block]" after]
    by (simp add: run_basic_errors)
  have e: "full_errors parse [block] = [empty_error block]"
    using f by (simp add: full_errors_def)
  have c: "full_calls parse [block] = []"
    using f by (simp add: full_calls_def)
  assume "set sched = {..<length (before @ block # after)}"
  then have "run_full parse sched (before @ block # after) =
      Some \<lparr>reported = full_errors parse (before @ block # after),
            parser_calls = full_calls parse (before @ block # after)\<rparr>"
    by (rule run_full_complete)
  moreover have "full_errors parse (before @ block # after) =
      full_errors parse before @ empty_error block # full_errors parse after"
    using full_errors_append [of parse before "[block] @ after"]
      full_errors_append [of parse "[block]" after] e by simp
  moreover have "full_calls parse (before @ block # after) =
      full_calls parse before @ full_calls parse after"
    using full_calls_append [of parse before "[block] @ after"]
      full_calls_append [of parse "[block]" after] c by simp
  ultimately show "run_full parse sched (before @ block # after) =
      Some \<lparr>reported = full_errors parse before @ empty_error block # full_errors parse after,
            parser_calls = full_calls parse before @ full_calls parse after\<rparr>"
    by simp
qed

theorem empty_content_law_witness:
  "trim (cb_code ex_blank_block) = [] \<and>
   run_basic [ex_blank_block, ex_blank_block] = [empty_error ex_blank_block, empty_error ex_blank_block] \<and>
   run_full ex_parser [1, 0] [ex_blank_block, ex_blank_block] =
     Some \<lparr>reported = [empty_error ex_blank_block, empty_error ex_blank_block], parser_calls = []\<rparr>"
proof -
  have h: "trim (cb_code ex_blank_block) = []"
    by code_simp
  have s: "set [1, 0] = {..<length ([] @ ex_blank_block # [ex_blank_block])}"
    by auto
  have b0: "run_basic [] = []" by (simp add: run_basic_def)
  have b1: "run_basic [ex_blank_block] = [empty_error ex_blank_block]"
    using empty_content_law [OF h, of ex_parser "[]" "[]" "[]"] b0 by simp
  have f0: "full_errors ex_parser [] = []" "full_calls ex_parser [] = []"
    by (simp_all add: full_errors_def full_calls_def)
  have f1: "full_errors ex_parser [ex_blank_block] = [empty_error ex_blank_block]"
      "full_calls ex_parser [ex_blank_block] = []"
    using empty_content_law [OF h, of ex_parser "[]" "[]" "[]"]
    by (simp_all add: full_errors_def full_calls_def)
  show ?thesis
    using h s empty_content_law [OF h, of ex_parser "[]" "[ex_blank_block]" "[1, 0]"] b0 b1 f0 f1
    by simp
qed

section \<open>Order of the reports\<close>

lemma lefts_all_Inl:
  "\<forall>r \<in> set rs. \<exists>e. r = Inl e \<Longrightarrow>
     length (lefts rs) = length rs \<and> (\<forall>i < length rs. rs ! i = Inl (lefts rs ! i))"
proof (induction rs rule: lefts.induct)
  case 1
  then show ?case by simp
next
  case (2 e rs)
  then show ?case by (auto simp: nth_Cons split: nat.splits)
next
  case (3 v rs)
  then show ?case by simp
qed

text \<open>
  C3. When every one of the blocks fails its validation in full mode, then for every order
  in which the validations settle the rule returns, the callback has been called once per
  block, and the call number \<open>i\<close> carries the error of block number \<open>i\<close>.
\<close>

theorem order_preservation:
  assumes "\<forall>b \<in> set blocks. \<exists>e. snd (validateMermaidBlock parse b) = Inl e"
    and "set sched = {..<length blocks}"
  shows "\<exists>r. run_full parse sched blocks = Some r \<and>
           length (reported r) = length blocks \<and>
           (\<forall>i < length blocks.
              snd (validateMermaidBlock parse (blocks ! i)) = Inl (reported r ! i))"
proof -
  let ?rs = "map (\<lambda>b. snd (validateMermaidBlock parse b)) blocks"
  have "\<forall>r \<in> set ?rs. \<exists>e. r = Inl e"
    using assms(1) by auto
  from lefts_all_Inl [OF this]
  have "length (full_errors parse blocks) = length blocks"
    and "\<forall>i < length blocks.
       snd (validateMermaidBlock parse (blocks ! i)) = Inl (full_errors parse blocks ! i)"
    by (simp_all add: full_errors_def)
  then show ?thesis
    using run_full_complete [OF assms(2), of parse] by simp
qed

theorem order_preservation_witness:
  "(\<exists>e. snd (validateMermaidBlock ex_parser ex_blank_block) = Inl e) \<and>
   (\<exists>e. snd (validateMermaidBlock ex_parser ex_unknown_block) = Inl e) \<and>
   set [1, 0] = {..<length [ex_blank_block, ex_unknown_block]} \<and>
   (\<exists>r. run_full ex_parser [1, 0] [ex_blank_block, ex_unknown_block] = Some r \<and>
      length (reported r) = 2 \<and> ve_lineNumber (reported r ! 0) = 2 \<and>
      ve_lineNumber (reported r ! 1) = 6)"
proof -
  let ?bs = "[ex_blank_block, ex_unknown_block]"
  have v0: "map_sum ve_lineNumber (\<lambda>b. ()) (snd (validateMermaidBlock ex_parser ex_blank_block))
      = Inl 2"
    by code_simp
  have v1: "map_sum ve_lineNumber (\<lambda>b. ()) (snd (validateMermaidBlock ex_parser ex_unknown_block))
      = Inl 6"
    by code_simp
  have h1: "\<forall>b \<in> set ?bs. \<exists>e. snd (validateMermaidBlock ex_parser b) = Inl e"
  proof -
    have "\<exists>e. snd (validateMermaidBlock ex_parser ex_blank_block) = Inl e"
      using v0 by (cases "snd (validateMermaidBlock ex_parser ex_blank_block)") simp_all
    moreover have "\<exists>e. snd (validateMermaidBlock ex_parser ex_unknown_block) = Inl e"
      using v1 by (cases "snd (validateMermaidBlock ex_parser ex_unknown_block)") simp_all
    ultimately show ?thesis by simp
  qed
  have h2: "set [1, 0] = {..<length ?bs}"
    by auto
  obtain r where r: "run_full ex_parser [1, 0] ?bs = Some r"
    and n: "length (reported r) = length ?bs"
    and o: "\<forall>i < length ?bs. snd (validateMermaidBlock ex_parser (?bs ! i)) = Inl (reported r ! i)"
    using order_preservation [OF h1 h2] by blast
  have "snd (validateMermaidBlock ex_parser (?bs ! 0)) = Inl (reported r ! 0)"
    using o by (rule allE [of _ 0]) simp
  moreover have "snd (validateMermaidBlock ex_parser (?bs ! 1)) = Inl (reported r ! 1)"
    using o by (rule allE [of _ 1]) simp
  ultimately have "snd (validateMermaidBlock ex_parser ex_blank_block) = Inl (reported r ! 0)"
    and "snd (validateMermaidBlock ex_parser ex_unknown_block) = Inl (reported r ! 1)"
    by simp_all
  with v0 v1 have "ve_lineNumber (reported r ! 0) = 2" and "ve_lineNumber (reported r ! 1) = 6"
    by simp_all
  with h1 h2 r n show ?thesis by simp
qed

section \<open>Offsets and lines\<close>

lemma split_lines_not_empty: "split_lines c \<noteq> []"
  by (induction c) (simp_all split: list.splits)

lemma walk_lines_split:
  "offset - pos \<le> int (length c) \<Longrightarrow>
     walk_lines (split_lines c) offset pos line =
       line + int (count_newlines (take (nat (offset - pos)) c))"
proof (induction c arbitrary: pos line)
  case Nil
  then show ?case by (simp add: count_newlines_def)
next
  case (Cons x xs)
  show ?case
  proof (cases "offset \<le> pos")
    case True
    then show ?thesis
      by (cases "split_lines xs") (simp_all add: count_newlines_def split_lines_not_empty)
  next
    case False
    then have n: "nat (offset - pos) = Suc (nat (offset - (pos + 1)))"
      by arith
    from Cons.prems have le: "offset - (pos + 1) \<le> int (length xs)"
      by simp
    show ?thesis
    proof (cases "x = newline")
      case True
      with False Cons.IH [OF le, of "line + 1"] show ?thesis
        by (simp add: n count_newlines_def)
    next
      case nl: False
      obtain l ls where s: "split_lines xs = l # ls"
        using split_lines_not_empty [of xs] by (cases "split_lines xs") simp_all
      have "walk_lines (split_lines (x # xs)) offset pos line =
          walk_lines (split_lines xs) offset (pos + 1) line"
        using nl s by (simp add: add.assoc add.commute add.left_commute)
      with nl Cons.IH [OF le, of line] show ?thesis
        by (simp add: n count_newlines_def)
    qed
  qed
qed

text \<open>
  C9. For an offset between 0 and the length of the code, the line that the walk of
  \<open>handleUnexpectedChar\<close> computes is 1 plus the number of line feeds before the offset,
  which is what \<open>calculateKatexErrorLine\<close> computes from start line 1.
\<close>

theorem offset_line_agrees:
  assumes "0 \<le> offset" and "offset \<le> int (length c)"
  shows "unexpected_char_line c offset = 1 + int (count_newlines (take (nat offset) c)) \<and>
         unexpected_char_line c offset = calculateKatexErrorLine c offset 1"
  using assms walk_lines_split [of offset 0 c 1]
  by (simp add: unexpected_char_line_def calculateKatexErrorLine_def substring0_def)

theorem offset_line_agrees_witness:
  "(0::int) \<le> 3 \<and> 3 \<le> int (length ex_four_lines) \<and>
   unexpected_char_line ex_four_lines 3 = 2 \<and> calculateKatexErrorLine ex_four_lines 3 1 = 2"
proof -
  have h: "(3::int) \<le> int (length ex_four_lines)"
    by (simp add: ex_four_lines_def)
  have c: "count_newlines (take (nat 3) ex_four_lines) = 1"
    by code_simp
  show ?thesis
    using h c offset_line_agrees [of 3 ex_four_lines] by simp
qed

section \<open>Basic mode\<close>

lemma star_close_matches:
  "\<exists>r. rx_match ci [Cls k Star, Close] pre inp g caps = Some r"
  by (induction inp arbitrary: pre) (auto split: option.splits)

lemma bol_fails_inside:
  "pre \<noteq> [] \<Longrightarrow> rx_search ci (Bol # its) pre inp = None"
  by (induction inp arbitrary: pre) simp_all

lemma diagram_type_re_matches:
  "(rx_exec False diagram_type_re l \<noteq> None) = identifier_shaped l"
proof (cases l)
  case Nil
  then show ?thesis
    by (simp add: rx_exec_def diagram_type_re_def identifier_shaped_def)
next
  case (Cons x xs)
  obtain r where "rx_match False [Cls IdChar Star, Close] [x] xs 0 [] = Some r"
    using star_close_matches by blast
  with Cons show ?thesis
    by (auto simp: rx_exec_def diagram_type_re_def identifier_shaped_def bol_fails_inside)
qed

lemma find_type_content_lines:
  "find_type ls =
     (case filter (\<lambda>l. l \<noteq> [] \<and> \<not> startsWith l ''%%'') (map trim ls) of
        [] \<Rightarrow> False
      | l # _ \<Rightarrow> identifier_shaped l)"
  by (induction ls) (simp_all add: Let_def diagram_type_re_matches del: not_None_eq)

lemma find_type_missing: "find_type (split_lines c) = (\<not> missing_diagram_type c)"
  by (simp add: find_type_content_lines missing_diagram_type_def content_lines_def
      split: list.splits)

text \<open>
  C6. In basic mode the rule returns without a parser call, and its report is what the
  blocks contribute one after the other, so an error does not stop the later blocks. A
  block that passes the empty check gives an error exactly when its diagram type is
  missing in the sense above; that error is at the start line of the block.
\<close>

theorem basic_mode_law:
  "mermaidSyntaxRule (Some True) parse sched tokens =
     Some \<lparr>reported = run_basic (extractMermaidBlocks tokens), parser_calls = []\<rparr> \<and>
   run_basic (before @ after) = run_basic before @ run_basic after \<and>
   run_basic [block] = (case validateBasicBlock block of Inl e \<Rightarrow> [e] | Inr _ \<Rightarrow> []) \<and>
   (checkNotEmpty block = Inr tb \<longrightarrow>
      ((\<exists>e. validateBasicBlock block = Inl e) = missing_diagram_type (cb_code tb)) \<and>
      (\<forall>e. validateBasicBlock block = Inl e \<longrightarrow>
         ve_lineNumber e = cb_startLine block \<and> ve_detail e = Some missing_type_detail) \<and>
      (\<not> missing_diagram_type (cb_code tb) \<longrightarrow> validateBasicBlock block = Inr tb))"
proof (intro conjI impI)
  show "mermaidSyntaxRule (Some True) parse sched tokens =
      Some \<lparr>reported = run_basic (extractMermaidBlocks tokens), parser_calls = []\<rparr>"
    by (simp add: mermaidSyntaxRule_def)
  show "run_basic (before @ after) = run_basic before @ run_basic after"
    by (simp add: run_basic_errors basic_errors_def lefts_append)
  show "run_basic [block] = (case validateBasicBlock block of Inl e \<Rightarrow> [e] | Inr _ \<Rightarrow> [])"
    by (simp add: run_basic_def split: sum.splits)
next
  assume ok: "checkNotEmpty block = Inr tb"
  show "(\<exists>e. validateBasicBlock block = Inl e) = missing_diagram_type (cb_code tb)"
    using ok by (auto simp: validateBasicBlock_def Let_def find_type_missing)
  show "\<forall>e. validateBasicBlock block = Inl e \<longrightarrow>
      ve_lineNumber e = cb_startLine block \<and> ve_detail e = Some missing_type_detail"
    using ok by (auto simp: validateBasicBlock_def Let_def split: if_splits)
  assume "\<not> missing_diagram_type (cb_code tb)"
  then show "validateBasicBlock block = Inr tb"
    using ok by (simp add: validateBasicBlock_def Let_def find_type_missing)
qed

theorem basic_mode_law_witness:
  "checkNotEmpty ex_comment_block =
     Inr \<lparr>cb_code = trim (cb_code ex_comment_block), cb_startLine = 9\<rparr> \<and>
   missing_diagram_type (trim (cb_code ex_comment_block)) \<and>
   (\<exists>e. validateBasicBlock ex_comment_block = Inl e \<and> ve_lineNumber e = 9) \<and>
   checkNotEmpty ex_flow_block =
     Inr \<lparr>cb_code = trim (cb_code ex_flow_block), cb_startLine = 20\<rparr> \<and>
   \<not> missing_diagram_type (trim (cb_code ex_flow_block)) \<and>
   validateBasicBlock ex_flow_block =
     Inr \<lparr>cb_code = trim (cb_code ex_flow_block), cb_startLine = 20\<rparr>"
proof -
  let ?tc = "\<lparr>cb_code = trim (cb_code ex_comment_block), cb_startLine = 9\<rparr>"
  let ?tf = "\<lparr>cb_code = trim (cb_code ex_flow_block), cb_startLine = 20\<rparr>"
  have c1: "checkNotEmpty ex_comment_block = Inr ?tc"
    by code_simp
  have c2: "missing_diagram_type (trim (cb_code ex_comment_block))"
    by code_simp
  have c3: "cb_startLine ex_comment_block = 9"
    by (simp add: ex_comment_block_def)
  have f1: "checkNotEmpty ex_flow_block = Inr ?tf"
    by code_simp
  have f2: "\<not> missing_diagram_type (trim (cb_code ex_flow_block))"
    by code_simp
  note c = basic_mode_law [of ex_parser "[]" "[]" "[]" "[]" ex_comment_block ?tc]
  note f = basic_mode_law [of ex_parser "[]" "[]" "[]" "[]" ex_flow_block ?tf]
  from c c1 c2 obtain e where e: "validateBasicBlock ex_comment_block = Inl e"
    by auto
  with c c1 c3 have "ve_lineNumber e = 9"
    by simp
  moreover from f f1 f2 have "validateBasicBlock ex_flow_block = Inr ?tf"
    by simp
  ultimately show ?thesis
    using c1 c2 f1 f2 e by simp
qed

section \<open>The cascade of the translator\<close>

text \<open>
  C7. \<open>parseErrorMessage\<close> gives the result of the first rule of the cascade that matches
  the message, whatever later rules match; when no rule matches the result has no line
  and its message is the first line of the raw message, cut after 150 characters.
\<close>

theorem cascade_first_match:
  "parseErrorMessage m c =
     (case first_match m of Some r \<Rightarrow> rule_result m c r | None \<Rightarrow> default_result m) \<and>
   (first_match m = None \<longrightarrow>
      pe_line (parseErrorMessage m c) = None \<and>
      pe_message (parseErrorMessage m c) = Some (take 150 (first_line m)))"
proof -
  have 1: "parseErrorMessage m c =
      (case first_match m of Some r \<Rightarrow> rule_result m c r | None \<Rightarrow> default_result m)"
    by (simp add: parseErrorMessage_def first_match_def cascade_def captures_def
        split: option.splits)
  moreover have "first_match m = None \<longrightarrow>
      pe_line (parseErrorMessage m c) = None \<and>
      pe_message (parseErrorMessage m c) = Some (take 150 (first_line m))"
    by (simp add: 1 default_result_def substring0_def)
  ultimately show ?thesis by simp
qed

theorem cascade_first_match_witness:
  "first_match ex_unknown_message = None \<and>
   pe_line (parseErrorMessage ex_unknown_message ''x'') = None \<and>
   pe_message (parseErrorMessage ex_unknown_message ''x'') = Some ''Diagram failed to load''"
proof -
  have h: "first_match ex_unknown_message = None"
    by code_simp
  have f: "take 150 (first_line ex_unknown_message) = ''Diagram failed to load''"
    by code_simp
  have "first_match ex_unknown_message = None \<longrightarrow>
      pe_line (parseErrorMessage ex_unknown_message ''x'') = None \<and>
      pe_message (parseErrorMessage ex_unknown_message ''x'') =
        Some (take 150 (first_line ex_unknown_message))"
    using cascade_first_match [of ex_unknown_message "''x''"] by (rule conjunct2)
  with h f show ?thesis by simp
qed

lemma cascade_earlier_rule_wins:
  "rule_matches ex_two_rules_message LexicalRule \<and>
   rule_matches ex_two_rules_message NoDiagramTypeRule \<and>
   parseErrorMessage ex_two_rules_message ''x'' = lexical_result [''7'']"
  by code_simp

section \<open>The context of a parser failure\<close>

lemma trim_head_not_space:
  assumes "trim s \<noteq> []"
  shows "\<not> is_space (hd (trim s))"
proof -
  let ?t = "dropWhile is_space s"
  have t: "?t \<noteq> []"
  proof
    assume e: "?t = []"
    have "trim s = rev (dropWhile is_space (rev ?t))"
      by (simp only: trim_def)
    also have "\<dots> = []"
      by (simp only: e rev.simps dropWhile.simps)
    finally show False using assms by simp
  qed
  then obtain x xs where x: "?t = x # xs"
    by (cases ?t) simp_all
  then have nx: "\<not> is_space x"
    using hd_dropWhile [OF t] by simp
  have "\<exists>zs. dropWhile is_space (rev ?t) = zs @ [x]"
    using x nx by (auto simp: dropWhile_append)
  then obtain zs where "dropWhile is_space (rev ?t) = zs @ [x]" ..
  then have "trim s = x # rev zs"
    by (simp add: trim_def)
  with nx show ?thesis by simp
qed

lemma first_line_Cons:
  "x \<noteq> newline \<Longrightarrow> first_line (x # xs) \<noteq> []"
  using split_lines_not_empty [of xs]
  by (cases "split_lines xs") (simp_all add: first_line_def)

lemma first_line_trim_not_empty:
  assumes "trim s \<noteq> []"
  shows "first_line (trim s) \<noteq> []"
proof -
  obtain x xs where x: "trim s = x # xs"
    using assms by (cases "trim s") simp_all
  with trim_head_not_space [OF assms] have "\<not> is_space x" by simp
  then have "x \<noteq> newline"
    by (auto simp: is_space_def newline_def code_def)
  with x show ?thesis by (simp add: first_line_Cons)
qed

text \<open>
  C10, as the code has it. The error of a parser failure always carries a context, and
  the context is not empty: it is the context of the translator when that is a non-empty
  string, and otherwise (the translator gave \<open>null\<close> or the empty string) the first line
  of the trimmed code, cut after 40 characters.
\<close>

theorem context_always_present:
  assumes "checkNotEmpty block = Inr tb"
    and "parse (cb_code tb) = ThrowsError m \<or>
         (parse (cb_code tb) = ThrowsOther \<and> m = ''Unknown parse error'')"
  shows "\<exists>e x. snd (validateMermaidBlock parse block) = Inl e \<and> ve_context e = Some x \<and>
           x \<noteq> [] \<and>
           x = (case pe_context (parseErrorMessage m (cb_code tb)) of
                  None \<Rightarrow> take 40 (first_line (cb_code tb))
                | Some t \<Rightarrow> if t \<noteq> [] then t else take 40 (first_line (cb_code tb)))"
proof -
  let ?p = "parseErrorMessage m (cb_code tb)"
  let ?e = "toValidationError ?p (cb_startLine block) (cb_code tb)"
  let ?f = "take 40 (first_line (cb_code tb))"
  note tb = checkNotEmpty_startLine [OF assms(1)]
  have e: "snd (validateMermaidBlock parse block) = Inl ?e"
    using assms tb by (auto simp: validateMermaidBlock_def parseMermaidSyntax_def)
  have "first_line (cb_code tb) \<noteq> []"
    using tb first_line_trim_not_empty [of "cb_code block"] by metis
  then have f: "?f \<noteq> []" by simp
  obtain l ls where l: "split_lines (cb_code tb) = l # ls"
    using split_lines_not_empty [of "cb_code tb"] by (cases "split_lines (cb_code tb)") simp_all
  then have c: "ve_context ?e =
      Some (case pe_context ?p of None \<Rightarrow> ?f | Some t \<Rightarrow> if t \<noteq> [] then t else ?f)"
    by (simp add: toValidationError_def truthy_def first_line_def substring0_def
        split: option.splits)
  have "(case pe_context ?p of None \<Rightarrow> ?f | Some t \<Rightarrow> if t \<noteq> [] then t else ?f) \<noteq> []"
    using f by (simp split: option.splits)
  with e c show ?thesis by blast
qed

theorem context_always_present_witness:
  "\<exists>e. snd (validateMermaidBlock ex_caret_parser ex_graph_block) = Inl e \<and>
      ve_context e = Some ''graph TD''"
proof -
  let ?tb = "\<lparr>cb_code = trim (cb_code ex_graph_block), cb_startLine = 3\<rparr>"
  have h1: "checkNotEmpty ex_graph_block = Inr ?tb"
    by code_simp
  have h2: "ex_caret_parser (cb_code ?tb) = ThrowsError ex_caret_message \<or>
      (ex_caret_parser (cb_code ?tb) = ThrowsOther \<and> ex_caret_message = ''Unknown parse error'')"
    by (simp add: ex_caret_parser_def)
  have v: "(case pe_context (parseErrorMessage ex_caret_message (cb_code ?tb)) of
              None \<Rightarrow> take 40 (first_line (cb_code ?tb))
            | Some t \<Rightarrow> if t \<noteq> [] then t else take 40 (first_line (cb_code ?tb))) = ''graph TD''"
    by code_simp
  from context_always_present [of ex_graph_block ?tb ex_caret_parser ex_caret_message, OF h1 h2] v
  show ?thesis
    by auto
qed

text \<open>
  C10 as stated fails: here the translator gives the context \<open>''''\<close>, which is not \<open>null\<close>,
  and the error carries the first line of the code instead.
\<close>

theorem context_non_null_counterexample:
  "pe_context (parseErrorMessage ex_caret_message (trim (cb_code ex_graph_block))) = Some [] \<and>
   map_sum ve_context cb_code (snd (validateMermaidBlock ex_caret_parser ex_graph_block)) =
     Inl (Some ''graph TD'')"
  by code_simp

section \<open>Token hints\<close>

lemma token_hint_own:
  assumes "map_of TOKEN_HINTS tok = Some e"
    and "rx_exec True parse_error_re m = Some pm"
    and "rx_exec False expecting_got_re m = Some [tok]"
  shows "pe_message (parseErrorMessage m c) = Some (th_message e) \<and>
         pe_hint (parseErrorMessage m c) = Some (th_hint e)"
  using assms
  by (simp add: parseErrorMessage_def handleParseError_def Let_def grp_def getTokenHint_def
      TOKEN_HINTS_get_def)

lemma token_hint_unknown:
  assumes "map_of TOKEN_HINTS tok = None" and "tok \<notin> set object_prototype_names"
    and "rx_exec True parse_error_re m = Some pm"
    and "rx_exec False expecting_got_re m = Some [tok]"
  shows "pe_message (parseErrorMessage m c) =
           Some (''Syntax error: unexpected '' @ [dquote] @ tok @ [dquote]) \<and>
         pe_hint (parseErrorMessage m c) = Some ''Check the syntax near this position''"
  using assms
  by (simp add: parseErrorMessage_def handleParseError_def Let_def grp_def getTokenHint_def
      TOKEN_HINTS_get_def)

text \<open>
  C8 at the token \<open>constructor\<close>, which is not a key of the table: the property read finds
  the member inherited from \<open>Object.prototype\<close>, and the message, the hint and the detail
  of the error are \<open>undefined\<close>, not the text \<open>Syntax error: unexpected "constructor"\<close>.
\<close>

theorem token_hint_inherited_name:
  "map_of TOKEN_HINTS ''constructor'' = None \<and>
   rx_exec False expecting_got_re ex_constructor_message = Some [''constructor''] \<and>
   getTokenHint ''constructor'' = ProtoMember \<and>
   pe_message (parseErrorMessage ex_constructor_message ''x'') = None \<and>
   pe_hint (parseErrorMessage ex_constructor_message ''x'') = None \<and>
   ve_detail (toValidationError (parseErrorMessage ex_constructor_message ''x'') 1 ''x'') = None"
  by code_simp

section \<open>Loading the parser\<close>

lemma enter_all_fresh:
  "\<not> mermaidInstance b \<Longrightarrow>
     enter_all n b =
       ((if n = 0 \<or> window_defined b then b
         else b\<lparr>window_defined := True, dom_setups := dom_setups b + 1\<rparr>),
        replicate n AwaitingImport)"
  by (induction n arbitrary: b) (auto simp: getMermaid_enter_def)

lemma resume_all_awaiting:
  "initialize_calls (resume_all (replicate n AwaitingImport) b) = initialize_calls b + n \<and>
   dom_setups (resume_all (replicate n AwaitingImport) b) = dom_setups b"
  by (induction n arbitrary: b) (simp_all add: getMermaid_resume_def)

lemma concurrent_first_calls:
  "initialize_calls (concurrent_getMermaid n fresh_backend) = n \<and>
   dom_setups (concurrent_getMermaid n fresh_backend) = (if n = 0 then 0 else 1)"
  by (simp add: concurrent_getMermaid_def enter_all_fresh fresh_backend_def resume_all_awaiting)

text \<open>
  C5 at two blocks validated for the first time: both calls of \<open>getMermaid\<close> pass the
  test of \<open>mermaidInstance\<close> before either has stored the instance; the DOM is set up
  once, and \<open>mermaid.initialize\<close> runs twice.
\<close>

theorem two_first_calls_initialize_twice:
  "enter_all 2 fresh_backend =
     (fresh_backend\<lparr>window_defined := True, dom_setups := 1\<rparr>, [AwaitingImport, AwaitingImport]) \<and>
   initialize_calls (concurrent_getMermaid 2 fresh_backend) = 2 \<and>
   dom_setups (concurrent_getMermaid 2 fresh_backend) = 1"
  by code_simp

section \<open>Order of the extracted blocks\<close>

lemma rx_all_from_lower:
  "m \<in> set (rx_all_from ci items pre inp skip) \<Longrightarrow> length pre \<le> fst m"
proof (induction inp arbitrary: pre skip)
  case Nil
  then show ?case
    by (cases "skip = 0"; cases "rx_match ci items pre [] 0 []") auto
next
  case (Cons x xs)
  have ih: "length pre \<le> fst m" if "m \<in> set (rx_all_from ci items (x # pre) xs k)" for k
    using Cons.IH [OF that] by simp
  show ?case
  proof (cases "skip = 0")
    case True
    with Cons.prems show ?thesis
      by (cases "rx_match ci items pre (x # xs) 0 []") (auto intro: ih)
  next
    case False
    with Cons.prems show ?thesis
      by (auto intro: ih)
  qed
qed

lemma rx_all_from_positions:
  "sorted_wrt (<) (map fst (rx_all_from ci items pre inp skip))"
proof (induction inp arbitrary: pre skip)
  case Nil
  then show ?case by (simp split: option.splits)
next
  case (Cons x xs)
  have "length pre < fst m" if "m \<in> set (rx_all_from ci items (x # pre) xs k)" for m k
    using rx_all_from_lower [OF that] by simp
  then show ?case
    using Cons by (auto split: option.splits)
qed

lemma count_newlines_take_mono:
  "i \<le> j \<Longrightarrow> count_newlines (take i s) \<le> count_newlines (take j s)"
proof -
  assume "i \<le> j"
  then have "take j s = take i s @ take (j - i) (drop i s)"
    by (metis le_add_diff_inverse take_add)
  then show ?thesis by (simp add: count_newlines_def)
qed

lemma fold_patterns:
  "foldl (\<lambda>blocks x. blocks @ f x) acc xs = acc @ concat (map f xs)"
  by (induction xs arbitrary: acc) simp_all

text \<open>
  C4, as the code has it. The blocks come token by token, in the order of the tokens.
  Within one \<open>html_block\<close> token they come pattern by pattern (\<open>pre\<close>, then \<open>div\<close>, then
  \<open>code\<close>); the matches of one pattern are found at increasing positions, so the blocks of
  one pattern are in the order of their carriers and their start lines do not decrease.
\<close>

theorem extraction_order:
  "extractMermaidBlocks tokens = concat (map token_blocks tokens) \<and>
   extractMermaidBlocks (before @ after) =
     extractMermaidBlocks before @ extractMermaidBlocks after \<and>
   extractMermaidFromHtml html startLine =
     pattern_blocks html startLine pre_re @ pattern_blocks html startLine div_re
       @ pattern_blocks html startLine code_re \<and>
   pattern_blocks html startLine pattern =
     map (html_block html startLine) (matchAll True pattern html) \<and>
   sorted_wrt (<) (map fst (matchAll True pattern html)) \<and>
   sorted (map cb_startLine (pattern_blocks html startLine pattern))"
proof (intro conjI)
  show t: "extractMermaidBlocks tokens = concat (map token_blocks tokens)" for tokens
    by (simp add: extractMermaidBlocks_def fold_patterns)
  show "extractMermaidBlocks (before @ after) =
      extractMermaidBlocks before @ extractMermaidBlocks after"
    by (simp add: t)
  show "extractMermaidFromHtml html startLine =
      pattern_blocks html startLine pre_re @ pattern_blocks html startLine div_re
        @ pattern_blocks html startLine code_re"
    by (simp add: extractMermaidFromHtml_def HTML_MERMAID_PATTERNS_def)
  show "pattern_blocks html startLine pattern =
      map (html_block html startLine) (matchAll True pattern html)"
    by (simp add: pattern_blocks_def)
  show s: "sorted_wrt (<) (map fst (matchAll True pattern html))"
    using rx_all_from_positions [of True pattern "[]" html 0] by (simp add: matchAll_def)
  have "sorted_wrt (\<lambda>a b. cb_startLine (html_block html startLine a)
          \<le> cb_startLine (html_block html startLine b)) (matchAll True pattern html)"
  proof (rule sorted_wrt_mono_rel [of _ "\<lambda>a b. fst a < fst b"])
    show "sorted_wrt (\<lambda>a b. fst a < fst b) (matchAll True pattern html)"
      using s by (simp add: sorted_wrt_map)
    fix a b :: "nat \<times> string list"
    assume "fst a < fst b"
    then show "cb_startLine (html_block html startLine a)
        \<le> cb_startLine (html_block html startLine b)"
      by (simp add: html_block_def Let_def count_newlines_take_mono)
  qed
  then show "sorted (map cb_startLine (pattern_blocks html startLine pattern))"
    by (simp add: pattern_blocks_def sorted_wrt_map)
qed

text \<open>
  C4 as stated fails: a \<open>div\<close> carrier on line 5 followed by a \<open>pre\<close> carrier on line 6
  in one token gives the block of the \<open>pre\<close> first.
\<close>

theorem extraction_order_counterexample:
  "extractMermaidBlocks [ex_html_token] =
     [\<lparr>cb_code = ''pie'', cb_startLine = 6\<rparr>, \<lparr>cb_code = ''graph TD'', cb_startLine = 5\<rparr>]"
  by code_simp

section \<open>Token hints on a message of the parser\<close>

lemma token_hint_known_name:
  "pe_message (parseErrorMessage (ex_got_message ''EOF'') ''x'') =
     Some ''Unexpected end of diagram'' \<and>
   pe_hint (parseErrorMessage (ex_got_message ''EOF'') ''x'') =
     Some ''Statement is incomplete - add missing node, message, or closing element''"
  by code_simp

lemma token_hint_unknown_name:
  "pe_message (parseErrorMessage (ex_got_message ''SEMI'') ''x'') =
     Some (''Syntax error: unexpected '' @ [dquote] @ ''SEMI'' @ [dquote]) \<and>
   pe_hint (parseErrorMessage (ex_got_message ''SEMI'') ''x'') =
     Some ''Check the syntax near this position''"
  by code_simp

end
